theory Spec2Isabelle
  imports Complex_Main
begin

section \<open>The Instant-NGP-with-depths data parser\<close>

text \<open>
  A shallow embedding of
  \<^verbatim>\<open>nerfstudio/data/dataparsers/instant_ngp_with_depths_dataparser.py\<close>.

  Conventions of the model.
  \<^item> The numeric fields of \<^verbatim>\<open>transforms.json\<close> are finite numbers; they are
    modelled as \<open>real\<close>, and float64 arithmetic on them is read as exact real
    arithmetic. Python's \<open>int\<close> and \<open>float\<close> values that compare equal
    (\<open>50 == 50.0\<close>) are the same real. The one place where the source can leave the
    finite numbers is the division inside \<open>fov_to_focal_length\<close>: its divisor is a
    numpy float64, so a zero divisor yields \<open>inf\<close> or \<open>nan\<close> instead of raising;
    \<open>pyfloat\<close> keeps these values apart from the reals.
  \<^item> Every exception of the source is a value of \<open>error\<close>, and a function that can
    raise returns \<open>error + 'a\<close> with \<open>Inl\<close> for the exception.
\<close>

subsection \<open>Errors and numbers\<close>

datatype error =
    KeyError string
  | AttributeError
  | AssertionError
  | IOError
  | IndexError
  | ValueError

datatype pyfloat = Fin real | PosInf | NegInf | NaN

text \<open>Sequencing of two steps that can raise: the first exception ends the run.\<close>

definition bind_err :: "error + 'a \<Rightarrow> ('a \<Rightarrow> error + 'b) \<Rightarrow> error + 'b" where
  "bind_err m f = (case m of Inl e \<Rightarrow> Inl e | Inr x \<Rightarrow> f x)"

text \<open>\<open>meta[k]\<close> on the manifest dictionary: a missing key raises \<open>KeyError\<close>.\<close>

definition getitem :: "(string \<rightharpoonup> real) \<Rightarrow> string \<Rightarrow> error + real" where
  "getitem meta k = (case meta k of None \<Rightarrow> Inl (KeyError k) | Some v \<Rightarrow> Inr v)"

text \<open>
  True division of a float by a numpy float64: no \<open>ZeroDivisionError\<close>; a zero divisor
  gives a signed infinity, and \<open>0 / 0\<close> gives \<open>nan\<close>. The reals have one zero: a
  divisor \<open>-0.0\<close>, which in numpy flips the sign of the infinity, is not told apart
  from \<open>0.0\<close>.
\<close>

definition np_div :: "real \<Rightarrow> real \<Rightarrow> pyfloat" where
  "np_div a b =
     (if b \<noteq> 0 then Fin (a / b)
      else if 0 < a then PosInf
      else if a < 0 then NegInf
      else NaN)"

text \<open>\<open>np.deg2rad\<close>.\<close>

definition deg2rad :: "real \<Rightarrow> real" where
  "deg2rad x = x * (pi / 180)"

subsection \<open>Focal lengths\<close>

text \<open>
  The local helper of \<open>get_focal_lengths\<close>:
  \<^verbatim>\<open>return 0.5 * res / np.tanh(0.5 * rad)\<close>.
\<close>

definition fov_to_focal_length :: "real \<Rightarrow> real \<Rightarrow> pyfloat" where
  "fov_to_focal_length rad res = np_div (0.5 * res) (tanh (0.5 * rad))"

text \<open>
  \<open>get_focal_lengths\<close>: both axes start at 0; each axis runs its own
  \<open>if\<close>/\<open>elif\<close> chain; \<open>meta["w"]\<close> and \<open>meta["h"]\<close> are read only in the
  field-of-view branches, where a missing key raises. The final test
  \<open>fl_x == 0 or fl_y == 0\<close> raises \<open>AttributeError\<close>.
\<close>

definition get_focal_lengths :: "(string \<rightharpoonup> real) \<Rightarrow> error + (pyfloat \<times> pyfloat)" where
  "get_focal_lengths meta =
     (case (case meta ''fl_x'' of
              Some v \<Rightarrow> Inr (Fin v)
            | None \<Rightarrow>
               (case meta ''x_fov'' of
                  Some d \<Rightarrow>
                    (case getitem meta ''w'' of
                       Inl e \<Rightarrow> Inl e
                     | Inr w \<Rightarrow> Inr (fov_to_focal_length (deg2rad d) w))
                | None \<Rightarrow>
                   (case meta ''camera_angle_x'' of
                      Some a \<Rightarrow>
                        (case getitem meta ''w'' of
                           Inl e \<Rightarrow> Inl e
                         | Inr w \<Rightarrow> Inr (fov_to_focal_length a w))
                    | None \<Rightarrow> Inr (Fin 0)))) of
        Inl e \<Rightarrow> Inl e
      | Inr fl_x \<Rightarrow>
         (case (case meta ''fl_y'' of
                  Some v \<Rightarrow> Inr (Fin v)
                | None \<Rightarrow>
                   (case meta ''y_fov'' of
                      Some d \<Rightarrow>
                        (case getitem meta ''h'' of
                           Inl e \<Rightarrow> Inl e
                         | Inr h \<Rightarrow> Inr (fov_to_focal_length (deg2rad d) h))
                    | None \<Rightarrow>
                       (case meta ''camera_angle_y'' of
                          Some a \<Rightarrow>
                            (case getitem meta ''h'' of
                               Inl e \<Rightarrow> Inl e
                             | Inr h \<Rightarrow> Inr (fov_to_focal_length a h))
                        | None \<Rightarrow> Inr (Fin 0)))) of
            Inl e \<Rightarrow> Inl e
          | Inr fl_y \<Rightarrow>
              if fl_x = Fin 0 \<or> fl_y = Fin 0 then Inl AttributeError
              else Inr (fl_x, fl_y)))"

text \<open>
  The resolver as the specification words it: per axis, an ordered list of
  (field, transform) pairs; the first field that is present wins; with no field present
  the axis keeps the sentinel 0. The two field-of-view transforms read the resolution
  (\<open>w\<close> for x, \<open>h\<close> for y) from the manifest.
\<close>

fun first_match :: "('a option \<times> ('a \<Rightarrow> 'b)) list \<Rightarrow> 'b \<Rightarrow> 'b" where
  "first_match [] sentinel = sentinel"
| "first_match ((None, f) # rest) sentinel = first_match rest sentinel"
| "first_match ((Some v, f) # rest) sentinel = f v"

definition resolve_axis_spec ::
  "(string \<rightharpoonup> real) \<Rightarrow> string \<Rightarrow> string \<Rightarrow> string \<Rightarrow> string \<Rightarrow> error + pyfloat" where
  "resolve_axis_spec meta direct degrees radians resolution =
     first_match
       [(meta direct, \<lambda>v. Inr (Fin v)),
        (meta degrees, \<lambda>d. bind_err (getitem meta resolution)
                              (\<lambda>res. Inr (fov_to_focal_length (deg2rad d) res))),
        (meta radians, \<lambda>a. bind_err (getitem meta resolution)
                              (\<lambda>res. Inr (fov_to_focal_length a res)))]
       (Inr (Fin 0))"

definition get_focal_lengths_spec :: "(string \<rightharpoonup> real) \<Rightarrow> error + (pyfloat \<times> pyfloat)" where
  "get_focal_lengths_spec meta =
     bind_err (resolve_axis_spec meta ''fl_x'' ''x_fov'' ''camera_angle_x'' ''w'') (\<lambda>fx.
     bind_err (resolve_axis_spec meta ''fl_y'' ''y_fov'' ''camera_angle_y'' ''h'') (\<lambda>fy.
       if fx = Fin 0 \<or> fy = Fin 0 then Inl AttributeError else Inr (fx, fy)))"

subsection \<open>Manifest, configuration and the outside world\<close>

text \<open>
  A frame of the manifest: \<open>frame["file_path"]\<close> and \<open>frame["transform_matrix"]\<close> (a
  JSON array of arrays of numbers). The manifest: \<open>meta["frames"]\<close> and the scalar
  numeric entries of the dictionary.
\<close>

record frame =
  file_path :: string
  transform_matrix :: "real list list"

record manifest =
  frames :: "frame list"
  scalars :: "string \<rightharpoonup> real"

text \<open>\<open>InstantNGPWithDepthsDataParserConfig\<close>; \<open>'p\<close> is the type of paths.\<close>

record 'p config =
  data :: 'p
  scale_factor :: real
  scene_scale :: real

text \<open>A numpy array as loaded by \<open>np.load\<close>: a number, or a sequence of sub-arrays.\<close>

datatype ndarray = Scalar real | Arr "ndarray list"

text \<open>
  What the parser reads from outside the file: \<open>pathlib\<close>'s \<open>/\<close> on the data
  directory, the \<open>.npy\<close> files (\<open>np.load\<close>, absent file = \<open>None\<close>), the images
  (\<open>imageio.imread\<close>, of which only \<open>.shape\<close> is used) and the rounding of
  \<open>astype(np.float32)\<close>.
\<close>

record 'p world =
  joinpath :: "'p \<Rightarrow> string \<Rightarrow> 'p"
  np_load :: "'p \<rightharpoonup> ndarray"
  imread :: "'p \<rightharpoonup> nat list"
  float32 :: "real \<Rightarrow> real"

text \<open>
  \<open>not fname\<close> on a \<open>pathlib.Path\<close>: the class defines neither \<open>__bool__\<close> nor
  \<open>__len__\<close>, so every path object is truthy, whatever string it was built from.
\<close>

definition path_truthy :: "'p \<Rightarrow> bool" where
  "path_truthy fname = True"

text \<open>The slice \<open>s[:-4]\<close>: all but the last four characters, empty when there are fewer.\<close>

definition slice_to_minus4 :: "string \<Rightarrow> string" where
  "slice_to_minus4 s = take (length s - 4) s"

definition depth_file :: "string \<Rightarrow> string" where
  "depth_file fp = slice_to_minus4 fp @ ''_disp.npy''"

text \<open>\<open>a[0]\<close> on a numpy array: a number and an empty array cannot be indexed.\<close>

fun index0 :: "ndarray \<Rightarrow> error + ndarray" where
  "index0 (Scalar x) = Inl IndexError"
| "index0 (Arr []) = Inl IndexError"
| "index0 (Arr (a # as)) = Inr a"

text \<open>\<open>np.array\<close> on one matrix: rows of different lengths are refused.\<close>

definition np_array :: "real list list \<Rightarrow> error + real list list" where
  "np_array m = (if list_all (\<lambda>row. length row = length (hd m)) m then Inr m else Inl ValueError)"

text \<open>Python's \<open>xs[i]\<close> on a list, with negative indices counted from the end.\<close>

definition py_getitem :: "'a list \<Rightarrow> int \<Rightarrow> error + 'a" where
  "py_getitem xs i =
     (let j = (if i < 0 then i + int (length xs) else i)
      in if 0 \<le> j \<and> j < int (length xs) then Inr (xs ! nat j) else Inl IndexError)"

text \<open>\<open>get_depths\<close>: \<^verbatim>\<open>return {"depth": depths[image_idx]}\<close>.\<close>

definition get_depths :: "int \<Rightarrow> ndarray list \<Rightarrow> error + (string \<times> ndarray) list" where
  "get_depths image_idx ds =
     (case py_getitem ds image_idx of Inl e \<Rightarrow> Inl e | Inr d \<Rightarrow> Inr [(''depth'', d)])"

text \<open>\<open>int(x)\<close> on a number: truncation towards zero.\<close>

definition py_int :: "real \<Rightarrow> int" where
  "py_int x = (if 0 \<le> x then \<lfloor>x\<rfloor> else \<lceil>x\<rceil>)"

subsection \<open>The per-frame loop\<close>

text \<open>
  The local variables the loop updates. \<open>image_size\<close> stands for
  \<open>image_height, image_width\<close>, which are unbound until a frame has been decoded.
\<close>

record 'p loop_state =
  st_image_filenames :: "'p list"
  st_poses :: "real list list list"
  st_depths :: "ndarray list"
  num_skipped_image_filenames :: nat
  image_size :: "(nat \<times> nat) option"

definition init_state :: "'p loop_state" where
  "init_state =
     \<lparr>st_image_filenames = [], st_poses = [], st_depths = [],
      num_skipped_image_filenames = 0, image_size = None\<rparr>"

text \<open>One iteration of \<^verbatim>\<open>for frame in meta["frames"]\<close>, statement by statement.\<close>

definition frame_step :: "'p world \<Rightarrow> 'p config \<Rightarrow> frame \<Rightarrow> 'p loop_state \<Rightarrow> error + 'p loop_state" where
  "frame_step W C fr st =
     (let fname = joinpath W (data C) (file_path fr) in
      if \<not> path_truthy fname then
        Inr (st\<lparr>num_skipped_image_filenames := num_skipped_image_filenames st + 1\<rparr>)
      else
        (case np_array (transform_matrix fr) of
           Inl e \<Rightarrow> Inl e
         | Inr pose \<Rightarrow>
            (case np_load W (joinpath W (data C) (depth_file (file_path fr))) of
               None \<Rightarrow> Inl IOError
             | Some depth \<Rightarrow>
                (case index0 depth of
                   Inl e \<Rightarrow> Inl e
                 | Inr d0 \<Rightarrow>
                    (case index0 d0 of
                       Inl e \<Rightarrow> Inl e
                     | Inr d00 \<Rightarrow>
                        (case imread W fname of
                           None \<Rightarrow> Inl IOError
                         | Some shape \<Rightarrow>
                            (case shape of
                               hh # ww # rest \<Rightarrow>
                                 Inr (st\<lparr>st_image_filenames := st_image_filenames st @ [fname],
                                         st_poses := st_poses st @ [pose],
                                         st_depths := st_depths st @ [d00],
                                         image_size := Some (hh, ww)\<rparr>)
                             | _ \<Rightarrow> Inl ValueError)))))))"

fun frame_loop :: "'p world \<Rightarrow> 'p config \<Rightarrow> frame list \<Rightarrow> 'p loop_state \<Rightarrow> error + 'p loop_state" where
  "frame_loop W C [] st = Inr st"
| "frame_loop W C (fr # frs) st =
     (case frame_step W C fr st of
        Inl e \<Rightarrow> Inl e
      | Inr st' \<Rightarrow> frame_loop W C frs st')"

subsection \<open>Pose post-processing\<close>

text \<open>
  The shape of one pose array: a matrix without rows is the one-dimensional empty array.
\<close>

definition shape :: "real list list \<Rightarrow> nat list" where
  "shape m = (if m = [] then [0] else [length m, length (hd m)])"

text \<open>
  \<^verbatim>\<open>poses = np.array(poses).astype(np.float32)\<close>: the arrays are stacked, which needs
  one common shape, and every entry is rounded to single precision.
\<close>

definition stack_float32 :: "(real \<Rightarrow> real) \<Rightarrow> real list list list \<Rightarrow> error + real list list list" where
  "stack_float32 f32 ps =
     (if list_all (\<lambda>p. shape p = shape (hd ps)) ps then Inr (map (map (map f32)) ps)
      else Inl ValueError)"

text \<open>
  \<^verbatim>\<open>poses[:, :3, 3] *= self.config.scene_scale\<close>, in place on the float32 array: the
  array must have three axes and the last one more than three entries; in each of
  the first three rows of each pose the entry of column 3 is multiplied.
\<close>

definition scale_row :: "(real \<Rightarrow> real) \<Rightarrow> real \<Rightarrow> real list \<Rightarrow> real list" where
  "scale_row f32 s row = row[3 := f32 (row ! 3 * f32 s)]"

definition scale_translation :: "(real \<Rightarrow> real) \<Rightarrow> real \<Rightarrow> real list list list \<Rightarrow> error + real list list list" where
  "scale_translation f32 s ps =
     (if ps = [] \<or> hd ps = [] \<or> length (hd (hd ps)) \<le> 3 then Inl IndexError
      else Inr (map (\<lambda>p. map (scale_row f32 s) (take 3 p) @ drop 3 p) ps))"

text \<open>\<^verbatim>\<open>poses[:, :3]\<close>: the first three rows of every pose.\<close>

definition top_rows :: "real list list list \<Rightarrow> real list list list" where
  "top_rows ps = map (take 3) ps"

definition camera_to_world_of :: "(real \<Rightarrow> real) \<Rightarrow> real \<Rightarrow> real list list list \<Rightarrow> error + real list list list" where
  "camera_to_world_of f32 s ps =
     (case stack_float32 f32 ps of
        Inl e \<Rightarrow> Inl e
      | Inr stacked \<Rightarrow>
         (case scale_translation f32 s stacked of
            Inl e \<Rightarrow> Inl e
          | Inr scaled \<Rightarrow> Inr (top_rows scaled)))"

subsection \<open>The parser's result\<close>

datatype camera_type = PERSPECTIVE | FISHEYE

text \<open>
  \<open>camera_utils.get_distortion_params\<close>, \<open>Cameras\<close>, \<open>SceneBox\<close> and
  \<open>DataparserOutputs\<close> are declared in other files of the package; each is
  represented by the keyword arguments this file passes to it.
\<close>

record distortion_params =
  k1 :: real
  k2 :: real
  p1 :: real
  p2 :: real

record cameras =
  fx :: pyfloat
  fy :: pyfloat
  cx :: real
  cy :: real
  distortion :: distortion_params
  height :: int
  width :: int
  camera_to_worlds :: "real list list list"
  cam_type :: camera_type

record scene_box =
  aabb :: "real list list"

text \<open>
  One entry of \<open>additional_inputs\<close>: \<^verbatim>\<open>{"func": ..., "kwargs": {...}}\<close>; the keyword
  arguments are kept as the dictionary's items.
\<close>

record descriptor =
  func :: "int \<Rightarrow> ndarray list \<Rightarrow> error + (string \<times> ndarray) list"
  kwargs :: "(string \<times> ndarray list) list"

record 'p dataparser_outputs =
  image_filenames :: "'p list"
  cameras :: cameras
  scene_box :: scene_box
  additional_inputs :: "(string \<times> descriptor) list"
  depths :: "ndarray list"

text \<open>
  The line \<^verbatim>\<open>Skipping {num_skipped_image_filenames} files in dataset split {split}.\<close>
  printed on the console, by its two holes.
\<close>

datatype log_line = Skipping nat string

text \<open>
  Everything after the assertion: poses, distortion parameters, scene box, focal
  lengths, cameras, outputs, with the dictionary reads in the order of the source.
\<close>

definition assemble :: "'p world \<Rightarrow> 'p config \<Rightarrow> manifest \<Rightarrow> 'p loop_state \<Rightarrow> error + 'p dataparser_outputs" where
  "assemble W C meta st =
     bind_err (camera_to_world_of (float32 W) (scene_scale C) (st_poses st)) (\<lambda>camera_to_world.
     bind_err (getitem (scalars meta) ''k1'') (\<lambda>v_k1.
     bind_err (getitem (scalars meta) ''k2'') (\<lambda>v_k2.
     bind_err (getitem (scalars meta) ''p1'') (\<lambda>v_p1.
     bind_err (getitem (scalars meta) ''p2'') (\<lambda>v_p2.
     bind_err (getitem (scalars meta) ''aabb_scale'') (\<lambda>aabb_scale.
     bind_err (get_focal_lengths (scalars meta)) (\<lambda>(fl_x, fl_y).
     bind_err (getitem (scalars meta) ''cx'') (\<lambda>v_cx.
     bind_err (getitem (scalars meta) ''cy'') (\<lambda>v_cy.
     bind_err (getitem (scalars meta) ''h'') (\<lambda>v_h.
     bind_err (getitem (scalars meta) ''w'') (\<lambda>v_w.
       Inr \<lparr>image_filenames = st_image_filenames st,
            cameras =
              \<lparr>fx = fl_x, fy = fl_y, cx = v_cx, cy = v_cy,
               distortion = \<lparr>k1 = v_k1, k2 = v_k2, p1 = v_p1, p2 = v_p2\<rparr>,
               height = py_int v_h, width = py_int v_w,
               camera_to_worlds = camera_to_world,
               cam_type = PERSPECTIVE\<rparr>,
            scene_box =
              \<lparr>aabb = map (map (float32 W))
                 [[- aabb_scale, - aabb_scale, - aabb_scale],
                  [aabb_scale, aabb_scale, aabb_scale]]\<rparr>,
            additional_inputs =
              [(''semantics'', \<lparr>func = get_depths, kwargs = [(''depths'', st_depths st)]\<rparr>)],
            depths = st_depths st\<rparr>)))))))))))"

text \<open>
  \<open>_generate_dataparser_outputs\<close>: the lines printed on the console and the value
  returned or the exception raised. An exception inside the loop leaves nothing
  printed; the summary line is printed under \<open>num_skipped_image_filenames >= 0\<close>, before
  the assertion.
\<close>

definition generate_dataparser_outputs ::
  "'p world \<Rightarrow> 'p config \<Rightarrow> manifest \<Rightarrow> string \<Rightarrow> log_line list \<times> (error + 'p dataparser_outputs)" where
  "generate_dataparser_outputs W C meta split =
     (case frame_loop W C (frames meta) init_state of
        Inl e \<Rightarrow> ([], Inl e)
      | Inr st \<Rightarrow>
         ((if num_skipped_image_filenames st \<ge> 0
           then [Skipping (num_skipped_image_filenames st) split] else []),
          (if length (st_image_filenames st) = 0 then Inl AssertionError
           else assemble W C meta st)))"

subsection \<open>Notions of the specification\<close>

text \<open>The resolved image path of a frame, and the frames the loop retains.\<close>

definition resolve :: "'p world \<Rightarrow> 'p config \<Rightarrow> frame \<Rightarrow> 'p" where
  "resolve W C fr = joinpath W (data C) (file_path fr)"

definition retained :: "'p world \<Rightarrow> 'p config \<Rightarrow> frame list \<Rightarrow> frame list" where
  "retained W C frs = filter (\<lambda>fr. path_truthy (resolve W C fr)) frs"

text \<open>
  The depth array of image path \<open>P\<close> as the specification words it: load the array at
  \<open>P[:-4] + "_disp.npy"\<close> under the same root and keep its \<open>[0][0]\<close> sub-array;
  \<open>None\<close> when the file or the sub-array does not exist.
\<close>

definition depth_array_spec :: "'p world \<Rightarrow> 'p config \<Rightarrow> string \<Rightarrow> ndarray option" where
  "depth_array_spec W C P =
     (case np_load W (joinpath W (data C) (take (length P - 4) P @ ''_disp.npy'')) of
        None \<Rightarrow> None
      | Some arr \<Rightarrow>
         (case index0 arr of
            Inl e \<Rightarrow> None
          | Inr a0 \<Rightarrow> (case index0 a0 of Inl e \<Rightarrow> None | Inr a00 \<Rightarrow> Some a00)))"

subsection \<open>A small data set\<close>

text \<open>
  Two frames under the directory \<open>data\<close>, with their depth files and images present;
  paths are strings joined by a slash (joining the empty string leaves the directory,
  as \<open>Path("data") / Path("")\<close> does), and single-precision rounding is taken exact.
\<close>

definition demo_world :: "string world" where
  "demo_world =
     \<lparr>joinpath = (\<lambda>d s. if s = [] then d else d @ ''/'' @ s),
      np_load = [''data/a_disp.npy'' \<mapsto> Arr [Arr [Arr [Arr [Scalar 1, Scalar 2]]]],
                 ''data/b_disp.npy'' \<mapsto> Arr [Arr [Arr [Arr [Scalar 3, Scalar 4]]]]],
      imread = [''data/a.png'' \<mapsto> [1, 2, 3], ''data/b.png'' \<mapsto> [1, 2, 3]],
      float32 = (\<lambda>x. x)\<rparr>"

definition demo_config :: "string config" where
  "demo_config = \<lparr>data = ''data'', scale_factor = 1, scene_scale = 33 / 100\<rparr>"

definition demo_manifest :: manifest where
  "demo_manifest =
     \<lparr>frames =
        [\<lparr>file_path = ''a.png'',
          transform_matrix = [[1, 0, 0, 3], [0, 1, 0, 6], [0, 0, 1, 9], [0, 0, 0, 1]]\<rparr>,
         \<lparr>file_path = ''b.png'',
          transform_matrix = [[0, 1, 0, -3], [1, 0, 0, 0], [0, 0, 1, 100], [0, 0, 0, 1]]\<rparr>],
      scalars =
        [''fl_x'' \<mapsto> 50, ''fl_y'' \<mapsto> 60, ''cx'' \<mapsto> 400, ''cy'' \<mapsto> 300,
         ''h'' \<mapsto> 600, ''w'' \<mapsto> 800, ''k1'' \<mapsto> 0, ''k2'' \<mapsto> 0, ''p1'' \<mapsto> 0, ''p2'' \<mapsto> 0,
         ''aabb_scale'' \<mapsto> 4]\<rparr>"

definition demo_outputs :: "string dataparser_outputs" where
  "demo_outputs =
     \<lparr>image_filenames = [''data/a.png'', ''data/b.png''],
      cameras =
        \<lparr>fx = Fin 50, fy = Fin 60, cx = 400, cy = 300,
         distortion = \<lparr>k1 = 0, k2 = 0, p1 = 0, p2 = 0\<rparr>,
         height = 600, width = 800,
         camera_to_worlds =
           [[[1, 0, 0, 99 / 100], [0, 1, 0, 198 / 100], [0, 0, 1, 297 / 100]],
            [[0, 1, 0, - 99 / 100], [1, 0, 0, 0], [0, 0, 1, 33]]],
         cam_type = PERSPECTIVE\<rparr>,
      scene_box = \<lparr>aabb = [[-4, -4, -4], [4, 4, 4]]\<rparr>,
      additional_inputs =
        [(''semantics'',
          \<lparr>func = get_depths,
           kwargs = [(''depths'', [Arr [Arr [Scalar 1, Scalar 2]], Arr [Arr [Scalar 3, Scalar 4]]])]\<rparr>)],
      depths = [Arr [Arr [Scalar 1, Scalar 2]], Arr [Arr [Scalar 3, Scalar 4]]]\<rparr>"

text \<open>
  A manifest whose only frame has the empty string as \<open>file_path\<close>, read once with
  no file on disk and once with every file the parser asks for.
\<close>

definition empty_path_manifest :: manifest where
  "empty_path_manifest =
     \<lparr>frames =
        [\<lparr>file_path = [],
          transform_matrix = [[1, 0, 0, 3], [0, 1, 0, 6], [0, 0, 1, 9], [0, 0, 0, 1]]\<rparr>],
      scalars = scalars demo_manifest\<rparr>"

definition no_files_world :: "string world" where
  "no_files_world =
     \<lparr>joinpath = (\<lambda>d s. if s = [] then d else d @ ''/'' @ s), np_load = Map.empty, imread = Map.empty,
      float32 = (\<lambda>x. x)\<rparr>"

definition all_files_world :: "string world" where
  "all_files_world =
     \<lparr>joinpath = (\<lambda>d s. if s = [] then d else d @ ''/'' @ s),
      np_load = (\<lambda>p. Some (Arr [Arr [Arr [Arr [Scalar 1]]]])),
      imread = (\<lambda>p. Some [1, 1, 3]),
      float32 = (\<lambda>x. x)\<rparr>"

text \<open>
  A pose whose rotation entries 0.6 and 0.8 are not single-precision numbers, read with
  their rounding to the nearest single-precision number: 0.6 becomes \<open>10066330 / 2^24\<close>
  and 0.8 becomes \<open>13421773 / 2^24\<close>. Every other number of this example (0, 1, 3, 6,
  9, the scale 0.5, the products 1.5, 3 and 4.5, and 4) is a single-precision number
  and stays as it is.
\<close>

definition float32_near :: "real \<Rightarrow> real" where
  "float32_near x =
     (if \<bar>x\<bar> = 6 / 10 then sgn x * (10066330 / 2 ^ 24)
      else if \<bar>x\<bar> = 8 / 10 then sgn x * (13421773 / 2 ^ 24)
      else x)"

definition rounding_world :: "string world" where
  "rounding_world = demo_world\<lparr>float32 := float32_near\<rparr>"

definition rounding_config :: "string config" where
  "rounding_config = \<lparr>data = ''data'', scale_factor = 1, scene_scale = 1 / 2\<rparr>"

definition rounding_manifest :: manifest where
  "rounding_manifest =
     \<lparr>frames =
        [\<lparr>file_path = ''a.png'',
          transform_matrix =
            [[6 / 10, - 8 / 10, 0, 3], [8 / 10, 6 / 10, 0, 6], [0, 0, 1, 9], [0, 0, 0, 1]]\<rparr>],
      scalars = scalars demo_manifest\<rparr>"

definition rounding_outputs :: "string dataparser_outputs" where
  "rounding_outputs =
     \<lparr>image_filenames = [''data/a.png''],
      cameras =
        \<lparr>fx = Fin 50, fy = Fin 60, cx = 400, cy = 300,
         distortion = \<lparr>k1 = 0, k2 = 0, p1 = 0, p2 = 0\<rparr>,
         height = 600, width = 800,
         camera_to_worlds =
           [[[10066330 / 2 ^ 24, - (13421773 / 2 ^ 24), 0, 3 / 2],
             [13421773 / 2 ^ 24, 10066330 / 2 ^ 24, 0, 3],
             [0, 0, 1, 9 / 2]]],
         cam_type = PERSPECTIVE\<rparr>,
      scene_box = \<lparr>aabb = [[-4, -4, -4], [4, 4, 4]]\<rparr>,
      additional_inputs =
        [(''semantics'',
          \<lparr>func = get_depths, kwargs = [(''depths'', [Arr [Arr [Scalar 1, Scalar 2]]])]\<rparr>)],
      depths = [Arr [Arr [Scalar 1, Scalar 2]]]\<rparr>"

section \<open>Properties\<close>

subsection \<open>Focal lengths\<close>

lemma get_focal_lengths_refines: "get_focal_lengths meta = get_focal_lengths_spec meta"
  by (simp add: get_focal_lengths_def get_focal_lengths_spec_def resolve_axis_spec_def
      bind_err_def getitem_def split: option.splits sum.splits)

lemma resolve_axis_error:
  "resolve_axis_spec meta direct dg rd rs = Inl e \<Longrightarrow> e = KeyError rs"
  by (cases "meta direct"; cases "meta dg"; cases "meta rd")
     (auto simp: resolve_axis_spec_def bind_err_def getitem_def split: option.splits)

text \<open>
  The focal-length error does not follow from one axis resolving to exactly 0 alone: for
  \<open>{fl_x: 0, camera_angle_y: 1}\<close> the x axis resolves to 0, and the y axis reads
  \<open>meta["h"]\<close>, which is absent, so the call ends in \<open>KeyError\<close>.
\<close>

theorem get_focal_lengths_priority_counterexample:
  "resolve_axis_spec [''fl_x'' \<mapsto> 0, ''camera_angle_y'' \<mapsto> 1]
      ''fl_x'' ''x_fov'' ''camera_angle_x'' ''w'' = Inr (Fin 0) \<and>
   get_focal_lengths [''fl_x'' \<mapsto> 0, ''camera_angle_y'' \<mapsto> 1] = Inl (KeyError ''h'') \<and>
   \<not> (get_focal_lengths [''fl_x'' \<mapsto> 0, ''camera_angle_y'' \<mapsto> 1] = Inl AttributeError \<longleftrightarrow>
        resolve_axis_spec [''fl_x'' \<mapsto> 0, ''camera_angle_y'' \<mapsto> 1]
          ''fl_x'' ''x_fov'' ''camera_angle_x'' ''w'' = Inr (Fin 0) \<or>
        resolve_axis_spec [''fl_x'' \<mapsto> 0, ''camera_angle_y'' \<mapsto> 1]
          ''fl_y'' ''y_fov'' ''camera_angle_y'' ''h'' = Inr (Fin 0))"
  by (simp add: resolve_axis_spec_def get_focal_lengths_def getitem_def bind_err_def)

text \<open>
  C3: \<open>get_focal_lengths\<close> resolves each axis on its own in the order direct field,
  field of view in degrees, field of view in radians, the first field present winning
  and the sentinel 0 remaining when none is. It raises the focal-length error exactly
  when both axes resolve (a field-of-view branch whose resolution \<open>w\<close> or \<open>h\<close> is
  missing raises \<open>KeyError\<close> instead) and one of the two values is 0; when \<open>w\<close> and
  \<open>h\<close> are present both axes resolve, the error is raised exactly when one of the two
  values is 0, and the two values are returned otherwise. With \<open>fl_x\<close> and \<open>fl_y\<close>
  both present it returns the two values as they are.
\<close>

theorem get_focal_lengths_priority:
  "get_focal_lengths meta = get_focal_lengths_spec meta \<and>
   (get_focal_lengths meta = Inl AttributeError \<longleftrightarrow>
      (\<exists>vx vy. resolve_axis_spec meta ''fl_x'' ''x_fov'' ''camera_angle_x'' ''w'' = Inr vx \<and>
               resolve_axis_spec meta ''fl_y'' ''y_fov'' ''camera_angle_y'' ''h'' = Inr vy \<and>
               (vx = Fin 0 \<or> vy = Fin 0))) \<and>
   (meta ''w'' \<noteq> None \<and> meta ''h'' \<noteq> None \<longrightarrow>
      (\<exists>vx vy. resolve_axis_spec meta ''fl_x'' ''x_fov'' ''camera_angle_x'' ''w'' = Inr vx \<and>
               resolve_axis_spec meta ''fl_y'' ''y_fov'' ''camera_angle_y'' ''h'' = Inr vy \<and>
               (get_focal_lengths meta = Inl AttributeError \<longleftrightarrow> vx = Fin 0 \<or> vy = Fin 0) \<and>
               (vx \<noteq> Fin 0 \<and> vy \<noteq> Fin 0 \<longrightarrow> get_focal_lengths meta = Inr (vx, vy)))) \<and>
   (meta ''fl_x'' = Some a \<and> meta ''fl_y'' = Some b \<longrightarrow>
      get_focal_lengths meta =
        (if a = 0 \<or> b = 0 then Inl AttributeError else Inr (Fin a, Fin b)))"
proof (intro conjI impI)
  show r: "get_focal_lengths meta = get_focal_lengths_spec meta"
    by (rule get_focal_lengths_refines)
  show "get_focal_lengths meta = Inl AttributeError \<longleftrightarrow>
      (\<exists>vx vy. resolve_axis_spec meta ''fl_x'' ''x_fov'' ''camera_angle_x'' ''w'' = Inr vx \<and>
               resolve_axis_spec meta ''fl_y'' ''y_fov'' ''camera_angle_y'' ''h'' = Inr vy \<and>
               (vx = Fin 0 \<or> vy = Fin 0))"
    unfolding r get_focal_lengths_spec_def
    by (cases "resolve_axis_spec meta ''fl_x'' ''x_fov'' ''camera_angle_x'' ''w''";
        cases "resolve_axis_spec meta ''fl_y'' ''y_fov'' ''camera_angle_y'' ''h''")
       (auto simp: bind_err_def dest: resolve_axis_error)
  {
    assume wh: "meta ''w'' \<noteq> None \<and> meta ''h'' \<noteq> None"
    then obtain vx where x: "resolve_axis_spec meta ''fl_x'' ''x_fov'' ''camera_angle_x'' ''w'' = Inr vx"
      by (cases "meta ''fl_x''"; cases "meta ''x_fov''"; cases "meta ''camera_angle_x''")
         (auto simp: resolve_axis_spec_def bind_err_def getitem_def)
    from wh obtain vy where y: "resolve_axis_spec meta ''fl_y'' ''y_fov'' ''camera_angle_y'' ''h'' = Inr vy"
      by (cases "meta ''fl_y''"; cases "meta ''y_fov''"; cases "meta ''camera_angle_y''")
         (auto simp: resolve_axis_spec_def bind_err_def getitem_def)
    show "\<exists>vx vy. resolve_axis_spec meta ''fl_x'' ''x_fov'' ''camera_angle_x'' ''w'' = Inr vx \<and>
               resolve_axis_spec meta ''fl_y'' ''y_fov'' ''camera_angle_y'' ''h'' = Inr vy \<and>
               (get_focal_lengths meta = Inl AttributeError \<longleftrightarrow> vx = Fin 0 \<or> vy = Fin 0) \<and>
               (vx \<noteq> Fin 0 \<and> vy \<noteq> Fin 0 \<longrightarrow> get_focal_lengths meta = Inr (vx, vy))"
      unfolding r get_focal_lengths_spec_def x y
      by (auto simp: bind_err_def)
  }
  assume "meta ''fl_x'' = Some a \<and> meta ''fl_y'' = Some b"
  then show "get_focal_lengths meta =
        (if a = 0 \<or> b = 0 then Inl AttributeError else Inr (Fin a, Fin b))"
    by (simp add: get_focal_lengths_def)
qed

theorem get_focal_lengths_priority_witness:
  "get_focal_lengths [''fl_x'' \<mapsto> 50, ''fl_y'' \<mapsto> 60] = Inr (Fin 50, Fin 60) \<and>
   get_focal_lengths [''fl_y'' \<mapsto> 60, ''w'' \<mapsto> 800, ''h'' \<mapsto> 600] = Inl AttributeError"
proof -
  have 1: "get_focal_lengths [''fl_x'' \<mapsto> 50, ''fl_y'' \<mapsto> 60] = Inr (Fin 50, Fin 60)"
    using get_focal_lengths_priority
      [of "[''fl_x'' \<mapsto> 50, ''fl_y'' \<mapsto> 60]" 50 60, THEN conjunct2, THEN conjunct2, THEN conjunct2]
    by simp
  have x: "resolve_axis_spec [''fl_y'' \<mapsto> 60, ''w'' \<mapsto> 800, ''h'' \<mapsto> 600]
             ''fl_x'' ''x_fov'' ''camera_angle_x'' ''w'' = Inr (Fin 0)"
    by (simp add: resolve_axis_spec_def)
  have 2: "get_focal_lengths [''fl_y'' \<mapsto> 60, ''w'' \<mapsto> 800, ''h'' \<mapsto> 600] = Inl AttributeError"
    using get_focal_lengths_priority
      [of "[''fl_y'' \<mapsto> 60, ''w'' \<mapsto> 800, ''h'' \<mapsto> 600]", THEN conjunct2, THEN conjunct2, THEN conjunct1]
      x
    by auto
  from 1 2 show ?thesis by simp
qed

lemma tanh_half_angle_bound: "tanh (0.4285::real) < 4 / 9"
proof -
  have "exp (0.857::real) \<le> 1 + 0.857 + 0.857\<^sup>2" by (rule exp_bound) simp_all
  then have e: "exp (0.857::real) < 2.6" by (simp add: power2_eq_square)
  have "exp (- 0.857::real) = 1 / exp 0.857" by (simp add: exp_minus field_simps)
  also have "\<dots> > 5 / 13" using e by (simp add: field_simps)
  finally have l: "exp (- 0.857::real) > 5 / 13" .
  have "tanh (0.4285::real) = (1 - exp (- 0.857)) / (1 + exp (- 0.857))"
    by (simp add: tanh_real_altdef)
  also have "\<dots> < 4 / 9" using l by (simp add: field_simps add_pos_pos)
  finally show ?thesis .
qed

text \<open>
  C1: without \<open>fl_x\<close>, the x focal length is to be \<open>0.5 * w / tan (0.5 * fov)\<close>, about
  869.8 for \<open>camera_angle_x = 0.857\<close> and \<open>w = 800\<close>. The function divides by the
  hyperbolic tangent instead: at that input it returns \<open>400 / tanh 0.4285\<close>, which is
  above 900, and for \<open>x_fov = 90\<close> degrees, where the tangent formula gives exactly 400,
  it returns \<open>400 / tanh (pi / 4)\<close>, which is larger than 400.
\<close>

theorem fov_to_focal_length_uses_tanh:
  "get_focal_lengths [''camera_angle_x'' \<mapsto> 0.857, ''w'' \<mapsto> 800, ''fl_y'' \<mapsto> 800] =
     Inr (Fin (400 / tanh 0.4285), Fin 800) \<and>
   400 / tanh (0.4285::real) > 900 \<and>
   get_focal_lengths [''x_fov'' \<mapsto> 90, ''w'' \<mapsto> 800, ''fl_y'' \<mapsto> 800] =
     Inr (Fin (400 / tanh (pi / 4)), Fin 800) \<and>
   400 / tanh (pi / 4 :: real) > 400 \<and>
   0.5 * 800 / tan (0.5 * deg2rad 90) = (400::real)"
proof (intro conjI)
  have t: "0 < tanh (0.4285::real)" by simp
  show "get_focal_lengths [''camera_angle_x'' \<mapsto> 0.857, ''w'' \<mapsto> 800, ''fl_y'' \<mapsto> 800] =
     Inr (Fin (400 / tanh 0.4285), Fin 800)"
    using t
    by (simp add: get_focal_lengths_def getitem_def fov_to_focal_length_def np_div_def)
  show "400 / tanh (0.4285::real) > 900"
    using tanh_half_angle_bound t by (simp add: field_simps)
  have d: "deg2rad 90 = pi / 2" by (simp add: deg2rad_def)
  have q: "0.5 * deg2rad 90 = pi / 4" by (simp add: deg2rad_def)
  have p: "0 < tanh (pi / 4 :: real)" by simp
  show "get_focal_lengths [''x_fov'' \<mapsto> 90, ''w'' \<mapsto> 800, ''fl_y'' \<mapsto> 800] =
     Inr (Fin (400 / tanh (pi / 4)), Fin 800)"
    using p
    by (simp add: get_focal_lengths_def getitem_def fov_to_focal_length_def np_div_def d)
  show "400 / tanh (pi / 4 :: real) > 400"
    using p tanh_real_lt_1 [of "pi / 4"] by (simp add: field_simps)
  show "0.5 * 800 / tan (0.5 * deg2rad 90) = (400::real)"
  proof -
    have "tan (0.5 * deg2rad 90) = (1::real)" by (simp only: q tan_45)
    then show ?thesis by simp
  qed
qed

subsection \<open>The loop and the assembly, step by step\<close>

lemma np_array_Inr: "np_array m = Inr p \<Longrightarrow> p = m"
  by (simp add: np_array_def split: if_splits)

lemma frame_step_retained:
  assumes "frame_step W C fr st = Inr st'" and "path_truthy (resolve W C fr)"
  shows "st_image_filenames st' = st_image_filenames st @ [resolve W C fr]"
    and "st_poses st' = st_poses st @ [transform_matrix fr]"
    and "map Some (st_depths st') = map Some (st_depths st) @ [depth_array_spec W C (file_path fr)]"
    and "num_skipped_image_filenames st' = num_skipped_image_filenames st"
  using assms
  by (auto simp: frame_step_def resolve_def depth_array_spec_def depth_file_def
      slice_to_minus4_def Let_def
      dest: np_array_Inr split: sum.splits option.splits list.splits)

lemma frame_step_skipped:
  assumes "frame_step W C fr st = Inr st'" and "\<not> path_truthy (resolve W C fr)"
  shows "st_image_filenames st' = st_image_filenames st"
    and "st_poses st' = st_poses st"
    and "st_depths st' = st_depths st"
    and "num_skipped_image_filenames st' = num_skipped_image_filenames st + 1"
  using assms
  by (auto simp: frame_step_def resolve_def Let_def)

lemma frame_loop_result:
  "frame_loop W C frs st = Inr st' \<Longrightarrow>
     st_image_filenames st' = st_image_filenames st @ map (resolve W C) (retained W C frs) \<and>
     st_poses st' = st_poses st @ map transform_matrix (retained W C frs) \<and>
     map Some (st_depths st') =
       map Some (st_depths st) @ map (\<lambda>fr. depth_array_spec W C (file_path fr)) (retained W C frs) \<and>
     num_skipped_image_filenames st' + length (retained W C frs) =
       num_skipped_image_filenames st + length frs"
proof (induction frs arbitrary: st)
  case Nil
  then show ?case by (simp add: retained_def)
next
  case (Cons fr frs)
  from Cons.prems obtain st1 where s1: "frame_step W C fr st = Inr st1"
    and l1: "frame_loop W C frs st1 = Inr st'"
    by (auto split: sum.splits)
  note IH = Cons.IH [OF l1]
  show ?case
  proof (cases "path_truthy (resolve W C fr)")
    case True
    from frame_step_retained [OF s1 True] IH True show ?thesis
      by (simp add: retained_def)
  next
    case False
    from frame_step_skipped [OF s1 False] IH False show ?thesis
      by (simp add: retained_def)
  qed
qed

lemma frame_loop_init:
  assumes "frame_loop W C frs init_state = Inr st"
  shows "st_image_filenames st = map (resolve W C) (retained W C frs)"
    and "st_poses st = map transform_matrix (retained W C frs)"
    and "map Some (st_depths st) = map (\<lambda>fr. depth_array_spec W C (file_path fr)) (retained W C frs)"
    and "num_skipped_image_filenames st + length (retained W C frs) = length frs"
  using frame_loop_result [OF assms] by (simp_all add: init_state_def)

lemma generate_Inr:
  assumes "generate_dataparser_outputs W C meta split = (printed, Inr out)"
  obtains st where "frame_loop W C (frames meta) init_state = Inr st"
    and "printed = [Skipping (num_skipped_image_filenames st) split]"
    and "st_image_filenames st \<noteq> []"
    and "assemble W C meta st = Inr out"
  using assms
  by (auto simp: generate_dataparser_outputs_def split: sum.splits if_splits)

lemma bind_err_Inr: "bind_err m f = Inr y \<Longrightarrow> \<exists>x. m = Inr x \<and> f x = Inr y"
  by (cases m) (simp_all add: bind_err_def)

lemma getitem_Inr: "getitem m k = Inr v \<Longrightarrow> m k = Some v"
  by (simp add: getitem_def split: option.splits)

lemma assemble_Inr:
  assumes "assemble W C meta st = Inr out"
  shows "image_filenames out = st_image_filenames st"
    and "depths out = st_depths st"
    and "additional_inputs out =
           [(''semantics'', \<lparr>func = get_depths, kwargs = [(''depths'', st_depths st)]\<rparr>)]"
    and "camera_to_world_of (float32 W) (scene_scale C) (st_poses st) =
           Inr (camera_to_worlds (cameras out))"
    and "\<exists>h w. scalars meta ''h'' = Some h \<and> scalars meta ''w'' = Some w \<and>
           height (cameras out) = py_int h \<and> width (cameras out) = py_int w"
  using assms unfolding assemble_def
  by (auto dest!: bind_err_Inr getitem_Inr split: prod.splits)

lemma camera_to_world_of_length:
  "camera_to_world_of f32 s ps = Inr c2w \<Longrightarrow> length c2w = length ps"
  by (auto simp: camera_to_world_of_def stack_float32_def scale_translation_def top_rows_def
      split: sum.splits if_splits)

subsection \<open>The small data set, run\<close>

lemma demo_loop:
  "frame_loop demo_world demo_config (frames demo_manifest) init_state =
     Inr \<lparr>st_image_filenames = [''data/a.png'', ''data/b.png''],
          st_poses = map transform_matrix (frames demo_manifest),
          st_depths = [Arr [Arr [Scalar 1, Scalar 2]], Arr [Arr [Scalar 3, Scalar 4]]],
          num_skipped_image_filenames = 0, image_size = Some (1, 2)\<rparr>"
  by (simp add: demo_world_def demo_config_def demo_manifest_def init_state_def frame_step_def
      path_truthy_def np_array_def depth_file_def slice_to_minus4_def)

lemma demo_run:
  "generate_dataparser_outputs demo_world demo_config demo_manifest ''train'' =
     ([Skipping 0 ''train''], Inr demo_outputs)"
  unfolding generate_dataparser_outputs_def demo_loop
  by (simp add: assemble_def bind_err_def camera_to_world_of_def stack_float32_def shape_def
      scale_translation_def scale_row_def top_rows_def getitem_def get_focal_lengths_def
      py_int_def demo_world_def demo_config_def demo_manifest_def demo_outputs_def)

subsection \<open>Retained frames\<close>

text \<open>
  C5: when the parse returns, the retained image paths, poses and depth arrays have one
  common length, the number of frames minus the skip count that is printed, and each
  sequence lists the retained frames in manifest order: the resolved paths, the
  transform matrices and the depth arrays of the frames that pass the path test, in
  the order of \<open>meta["frames"]\<close>. The returned paths, depths and camera-to-world
  transforms have that length too.
\<close>

theorem retained_sequences_aligned:
  assumes "generate_dataparser_outputs W C meta split = (printed, Inr out)"
  shows "\<exists>st. frame_loop W C (frames meta) init_state = Inr st \<and>
           printed = [Skipping (num_skipped_image_filenames st) split] \<and>
           0 < length (st_image_filenames st) \<and>
           length (st_image_filenames st) = length (frames meta) - num_skipped_image_filenames st \<and>
           length (st_poses st) = length (frames meta) - num_skipped_image_filenames st \<and>
           length (st_depths st) = length (frames meta) - num_skipped_image_filenames st \<and>
           st_image_filenames st = map (resolve W C) (retained W C (frames meta)) \<and>
           st_poses st = map transform_matrix (retained W C (frames meta)) \<and>
           map Some (st_depths st) =
             map (\<lambda>fr. depth_array_spec W C (file_path fr)) (retained W C (frames meta)) \<and>
           image_filenames out = st_image_filenames st \<and>
           depths out = st_depths st \<and>
           length (camera_to_worlds (cameras out)) = length (st_poses st)"
proof -
  from assms obtain st where l: "frame_loop W C (frames meta) init_state = Inr st"
    and p: "printed = [Skipping (num_skipped_image_filenames st) split]"
    and n: "st_image_filenames st \<noteq> []"
    and a: "assemble W C meta st = Inr out"
    by (rule generate_Inr)
  note r = frame_loop_init [OF l]
  have d: "length (st_depths st) = length (retained W C (frames meta))"
    using arg_cong [OF r(3), of length] by simp
  have c: "length (camera_to_worlds (cameras out)) = length (st_poses st)"
    using assemble_Inr(4) [OF a] by (rule camera_to_world_of_length)
  show ?thesis
    using l p n r d c assemble_Inr(1,2) [OF a] by (intro exI [of _ st]) auto
qed

theorem retained_sequences_aligned_witness:
  "\<exists>st. frame_loop demo_world demo_config (frames demo_manifest) init_state = Inr st \<and>
     num_skipped_image_filenames st = 0 \<and>
     st_image_filenames st = [''data/a.png'', ''data/b.png''] \<and>
     length (st_poses st) = 2 \<and> length (st_depths st) = 2 \<and>
     length (camera_to_worlds (cameras demo_outputs)) = 2"
  using retained_sequences_aligned [OF demo_run] unfolding demo_loop
  by (auto simp: demo_manifest_def demo_outputs_def)

subsection \<open>Depth arrays and the lookup descriptor\<close>




text \<open>
  C8: two parse calls that differ only in the split identifier return the same value or
  raise the same exception; the printed lines differ in the split identifier only.
\<close>

theorem split_only_in_log_line:
  "snd (generate_dataparser_outputs W C meta split) =
     snd (generate_dataparser_outputs W C meta split') \<and>
   fst (generate_dataparser_outputs W C meta split) =
     map (\<lambda>l. case l of Skipping n s \<Rightarrow> Skipping n split)
       (fst (generate_dataparser_outputs W C meta split'))"
  by (simp add: generate_dataparser_outputs_def split: sum.splits)

text \<open>
  C9: the lookup descriptor is stored in \<open>additional_inputs\<close> under the key
  \<open>"semantics"\<close>, and no key \<open>"depth"\<close> exists there; \<open>"depth"\<close> is the one key of
  every mapping the lookup function returns.
\<close>

theorem additional_inputs_key_semantics:
  assumes "generate_dataparser_outputs W C meta split = (printed, Inr out)"
  shows "map fst (additional_inputs out) = [''semantics''] \<and>
         map_of (additional_inputs out) ''depth'' = None \<and>
         (\<exists>d. map_of (additional_inputs out) ''semantics'' = Some d \<and>
              (\<forall>i ds r. func d i ds = Inr r \<longrightarrow> map fst r = [''depth'']))"
proof -
  from assms obtain st where a: "assemble W C meta st = Inr out"
    by (rule generate_Inr)
  show ?thesis
    using assemble_Inr(3) [OF a]
    by (auto simp: get_depths_def split: sum.splits)
qed

theorem additional_inputs_key_semantics_witness:
  "map fst (additional_inputs demo_outputs) = [''semantics''] \<and>
   map_of (additional_inputs demo_outputs) ''depth'' = None \<and>
   (\<exists>d. map_of (additional_inputs demo_outputs) ''semantics'' = Some d \<and>
        func d 0 (depths demo_outputs) = Inr [(''depth'', Arr [Arr [Scalar 1, Scalar 2]])])"
  using additional_inputs_key_semantics [OF demo_run]
  by (auto simp: demo_outputs_def get_depths_def py_getitem_def)

text \<open>
  C10: the depth-file name is the \<open>file_path\<close> string without its last four
  characters, whatever they are, followed by \<open>_disp.npy\<close>; a \<open>file_path\<close> shorter
  than four characters leaves the suffix alone; every retained frame loads its depth
  array from the file of that name under the data directory.
\<close>

theorem depth_file_drops_last_four:
  "depth_file fp = take (length fp - 4) fp @ ''_disp.npy'' \<and>
   (length fp < 4 \<longrightarrow> depth_file fp = ''_disp.npy'') \<and>
   (frame_step W C fr st = Inr st' \<and> path_truthy (resolve W C fr) \<longrightarrow>
      (\<exists>arr a0 a00.
         np_load W (joinpath W (data C)
           (take (length (file_path fr) - 4) (file_path fr) @ ''_disp.npy'')) = Some arr \<and>
         index0 arr = Inr a0 \<and> index0 a0 = Inr a00 \<and>
         st_depths st' = st_depths st @ [a00]))"
  by (auto simp: depth_file_def slice_to_minus4_def frame_step_def resolve_def Let_def
      split: sum.splits option.splits list.splits)

theorem depth_file_drops_last_four_witness:
  "depth_file ''a.b'' = ''_disp.npy'' \<and> depth_file ''img.jpeg'' = ''img._disp.npy'' \<and>
   (\<exists>st'. frame_step demo_world demo_config (hd (frames demo_manifest)) init_state = Inr st' \<and>
      np_load demo_world ''data/a_disp.npy'' \<noteq> None \<and>
      st_depths st' = [Arr [Arr [Scalar 1, Scalar 2]]])"
proof -
  have s: "frame_step demo_world demo_config (hd (frames demo_manifest)) init_state =
     Inr \<lparr>st_image_filenames = [''data/a.png''],
          st_poses = [[[1, 0, 0, 3], [0, 1, 0, 6], [0, 0, 1, 9], [0, 0, 0, 1]]],
          st_depths = [Arr [Arr [Scalar 1, Scalar 2]]],
          num_skipped_image_filenames = 0, image_size = Some (1, 2)\<rparr>"
    by (simp add: demo_world_def demo_config_def demo_manifest_def init_state_def frame_step_def
      path_truthy_def np_array_def depth_file_def slice_to_minus4_def)
  have t: "path_truthy (resolve demo_world demo_config (hd (frames demo_manifest)))"
    by (simp add: path_truthy_def)
  have "length ''a.b'' < 4" by simp
  with depth_file_drops_last_four [of "''a.b''", THEN conjunct2, THEN conjunct1]
  have 1: "depth_file ''a.b'' = ''_disp.npy''" by blast
  from depth_file_drops_last_four [of "''img.jpeg''", THEN conjunct1]
  have 2: "depth_file ''img.jpeg'' = ''img._disp.npy''" by simp
  from depth_file_drops_last_four [of "''a.b''" demo_world demo_config "hd (frames demo_manifest)" init_state] s t
  have 3: "np_load demo_world ''data/a_disp.npy'' \<noteq> None"
    by (auto simp: demo_world_def demo_config_def demo_manifest_def)
  show ?thesis using 1 2 3 s by simp
qed

subsection \<open>Independence of the decoded images\<close>

lemma map_Some_eq: "map Some xs = map Some ys \<Longrightarrow> xs = ys"
  by (induction xs arbitrary: ys) auto

lemma resolve_imread: "resolve (W\<lparr>imread := rd\<rparr>) C = resolve W C"
  by (rule ext) (simp add: resolve_def)

lemma retained_imread: "retained (W\<lparr>imread := rd\<rparr>) C frs = retained W C frs"
  by (simp add: retained_def resolve_imread)

lemma depth_array_spec_imread:
  "depth_array_spec (W\<lparr>imread := rd\<rparr>) C = depth_array_spec W C"
  by (rule ext) (simp add: depth_array_spec_def)

lemma assemble_cong:
  assumes "st_image_filenames st' = st_image_filenames st"
    and "st_poses st' = st_poses st" and "st_depths st' = st_depths st"
    and "float32 W' = float32 W"
  shows "assemble W' C meta st' = assemble W C meta st"
  using assms by (simp add: assemble_def)

text \<open>
  C7: the camera's height and width are \<open>int(meta["h"])\<close> and \<open>int(meta["w"])\<close>; what
  \<open>imageio.imread\<close> returns for the retained frames has no effect on the result: a
  parse with any other image reader that returns at all returns the same outputs and
  prints the same line.
\<close>

theorem height_width_from_manifest:
  assumes "generate_dataparser_outputs W C meta split = (printed, Inr out)"
  shows "(\<exists>h w. scalars meta ''h'' = Some h \<and> scalars meta ''w'' = Some w \<and>
               height (cameras out) = py_int h \<and> width (cameras out) = py_int w) \<and>
         (\<forall>rd printed' out'.
            generate_dataparser_outputs (W\<lparr>imread := rd\<rparr>) C meta split = (printed', Inr out')
            \<longrightarrow> out' = out \<and> printed' = printed)"
proof (intro conjI allI impI)
  from assms obtain st where l: "frame_loop W C (frames meta) init_state = Inr st"
    and p: "printed = [Skipping (num_skipped_image_filenames st) split]"
    and a: "assemble W C meta st = Inr out"
    by (rule generate_Inr)
  show "\<exists>h w. scalars meta ''h'' = Some h \<and> scalars meta ''w'' = Some w \<and>
               height (cameras out) = py_int h \<and> width (cameras out) = py_int w"
    by (rule assemble_Inr(5) [OF a])
  fix rd printed' out'
  assume "generate_dataparser_outputs (W\<lparr>imread := rd\<rparr>) C meta split = (printed', Inr out')"
  then obtain st' where l': "frame_loop (W\<lparr>imread := rd\<rparr>) C (frames meta) init_state = Inr st'"
    and p': "printed' = [Skipping (num_skipped_image_filenames st') split]"
    and a': "assemble (W\<lparr>imread := rd\<rparr>) C meta st' = Inr out'"
    by (rule generate_Inr)
  note r = frame_loop_init [OF l] and r' = frame_loop_init [OF l']
  have f: "st_image_filenames st' = st_image_filenames st"
    using r(1) r'(1) by (simp add: resolve_imread retained_imread)
  have q: "st_poses st' = st_poses st"
    using r(2) r'(2) by (simp add: retained_imread)
  have d: "st_depths st' = st_depths st"
    using r(3) r'(3) by (intro map_Some_eq [of "st_depths st'" "st_depths st"]) (simp add: depth_array_spec_imread retained_imread)
  have n: "num_skipped_image_filenames st' = num_skipped_image_filenames st"
    using r(4) r'(4) by (simp add: retained_imread)
  have "assemble (W\<lparr>imread := rd\<rparr>) C meta st' = assemble W C meta st"
    using f q d by (intro assemble_cong) simp_all
  with a a' have o: "out' = out" by simp
  from p p' n have "printed' = printed" by simp
  with o show "out' = out" and "printed' = printed" by simp_all
qed

theorem height_width_from_manifest_witness:
  "height (cameras demo_outputs) = 600 \<and> width (cameras demo_outputs) = 800 \<and>
   imread demo_world ''data/a.png'' = Some [1, 2, 3] \<and>
   generate_dataparser_outputs (demo_world\<lparr>imread := (\<lambda>p. Some [7, 9])\<rparr>)
     demo_config demo_manifest ''train'' = ([Skipping 0 ''train''], Inr demo_outputs)"
proof -
  have "frame_loop (demo_world\<lparr>imread := (\<lambda>p. Some [7, 9])\<rparr>) demo_config
          (frames demo_manifest) init_state =
     Inr \<lparr>st_image_filenames = [''data/a.png'', ''data/b.png''],
          st_poses = map transform_matrix (frames demo_manifest),
          st_depths = [Arr [Arr [Scalar 1, Scalar 2]], Arr [Arr [Scalar 3, Scalar 4]]],
          num_skipped_image_filenames = 0, image_size = Some (7, 9)\<rparr>"
    by (simp add: demo_world_def demo_config_def demo_manifest_def init_state_def frame_step_def
      path_truthy_def np_array_def depth_file_def slice_to_minus4_def)
  then have "\<exists>p' out'. generate_dataparser_outputs (demo_world\<lparr>imread := (\<lambda>p. Some [7, 9])\<rparr>)
     demo_config demo_manifest ''train'' = (p', Inr out')"
    unfolding generate_dataparser_outputs_def
    by (simp add: assemble_def bind_err_def camera_to_world_of_def stack_float32_def shape_def
      scale_translation_def scale_row_def top_rows_def getitem_def get_focal_lengths_def
      py_int_def demo_world_def demo_config_def demo_manifest_def)
  then obtain p' out' where
    g: "generate_dataparser_outputs (demo_world\<lparr>imread := (\<lambda>p. Some [7, 9])\<rparr>)
          demo_config demo_manifest ''train'' = (p', Inr out')"
    by blast
  from height_width_from_manifest [OF demo_run] g have "out' = demo_outputs \<and> p' = [Skipping 0 ''train'']" by blast
  with g have 1: "generate_dataparser_outputs (demo_world\<lparr>imread := (\<lambda>p. Some [7, 9])\<rparr>)
     demo_config demo_manifest ''train'' = ([Skipping 0 ''train''], Inr demo_outputs)"
    by simp
  from height_width_from_manifest [OF demo_run]
  have 2: "height (cameras demo_outputs) = 600 \<and> width (cameras demo_outputs) = 800"
    by (clarsimp simp: demo_manifest_def py_int_def)
  have 3: "imread demo_world ''data/a.png'' = Some [1, 2, 3]"
    by (simp add: demo_world_def)
  from 1 2 3 show ?thesis by simp
qed

subsection \<open>Pose post-processing\<close>

lemma frame_step_poses_rect:
  assumes "frame_step W C fr st = Inr st'"
    and "\<forall>p\<in>set (st_poses st). \<forall>row\<in>set p. length row = length (hd p)"
  shows "\<forall>p\<in>set (st_poses st'). \<forall>row\<in>set p. length row = length (hd p)"
  using assms
  by (auto simp: frame_step_def Let_def np_array_def list_all_iff
      split: sum.splits option.splits list.splits if_splits)

lemma frame_loop_poses_rect:
  "frame_loop W C frs st = Inr st' \<Longrightarrow>
   \<forall>p\<in>set (st_poses st). \<forall>row\<in>set p. length row = length (hd p) \<Longrightarrow>
   \<forall>p\<in>set (st_poses st'). \<forall>row\<in>set p. length row = length (hd p)"
proof (induction frs arbitrary: st)
  case Nil
  then show ?case by simp
next
  case (Cons fr frs)
  from Cons.prems(1) obtain st1 where s1: "frame_step W C fr st = Inr st1"
    and l1: "frame_loop W C frs st1 = Inr st'"
    by (auto split: sum.splits)
  from frame_step_poses_rect [OF s1 Cons.prems(2)] Cons.IH [OF l1] show ?case by blast
qed

lemma camera_to_world_of_Inr:
  assumes "camera_to_world_of f32 s ps = Inr c2w"
  shows "c2w = map (\<lambda>p. map (scale_row f32 s) (take 3 (map (map f32) p))) ps"
    and "\<forall>p\<in>set ps. p \<noteq> [] \<and> 3 < length (hd p)"
proof -
  from assms have st: "list_all (\<lambda>p. shape p = shape (hd ps)) ps"
    and sc: "scale_translation f32 s (map (map (map f32)) ps) = Inr (map (\<lambda>p. map (scale_row f32 s) (take 3 p) @ drop 3 p) (map (map (map f32)) ps))"
    and c: "c2w = top_rows (map (\<lambda>p. map (scale_row f32 s) (take 3 p) @ drop 3 p) (map (map (map f32)) ps))"
    by (auto simp: camera_to_world_of_def stack_float32_def scale_translation_def
        split: sum.splits if_splits)
  from c show "c2w = map (\<lambda>p. map (scale_row f32 s) (take 3 (map (map f32) p))) ps"
    by (auto simp: top_rows_def take_map)
  from sc have ne: "ps \<noteq> []" and h: "hd ps \<noteq> []" and w: "3 < length (hd (hd ps))"
    by (auto simp: scale_translation_def hd_map split: if_splits)
  show "\<forall>p\<in>set ps. p \<noteq> [] \<and> 3 < length (hd p)"
  proof
    fix p assume "p \<in> set ps"
    with st have "shape p = shape (hd ps)" by (simp add: list_all_iff)
    with h w show "p \<noteq> [] \<and> 3 < length (hd p)"
      by (auto simp: shape_def split: if_splits)
  qed
qed

lemma rounding_loop:
  "frame_loop rounding_world rounding_config (frames rounding_manifest) init_state =
     Inr \<lparr>st_image_filenames = [''data/a.png''],
          st_poses = map transform_matrix (frames rounding_manifest),
          st_depths = [Arr [Arr [Scalar 1, Scalar 2]]],
          num_skipped_image_filenames = 0, image_size = Some (1, 2)\<rparr>"
  by (simp add: rounding_world_def demo_world_def rounding_config_def rounding_manifest_def
      init_state_def frame_step_def path_truthy_def np_array_def depth_file_def
      slice_to_minus4_def)

lemma rounding_run:
  "generate_dataparser_outputs rounding_world rounding_config rounding_manifest ''train'' =
     ([Skipping 0 ''train''], Inr rounding_outputs)"
  unfolding generate_dataparser_outputs_def rounding_loop
  by (simp add: assemble_def bind_err_def camera_to_world_of_def stack_float32_def shape_def
      scale_translation_def scale_row_def top_rows_def getitem_def get_focal_lengths_def
      py_int_def rounding_world_def demo_world_def rounding_config_def demo_manifest_def
      rounding_manifest_def rounding_outputs_def float32_near_def)

text \<open>
  The rotation block is not always carried over as it is: the entry 0.6 of the input pose
  comes out as its single-precision rounding \<open>10066330 / 2^24\<close>, which lies within half
  a unit in the last place of 0.6 and differs from it.
\<close>

theorem camera_to_worlds_scaled_translation_counterexample:
  "generate_dataparser_outputs rounding_world rounding_config rounding_manifest ''train'' =
     ([Skipping 0 ''train''], Inr rounding_outputs) \<and>
   transform_matrix (frames rounding_manifest ! 0) ! 0 ! 0 = 6 / 10 \<and>
   camera_to_worlds (cameras rounding_outputs) ! 0 ! 0 ! 0 = 10066330 / 2 ^ 24 \<and>
   camera_to_worlds (cameras rounding_outputs) ! 0 ! 0 ! 0 \<noteq>
     transform_matrix (frames rounding_manifest ! 0) ! 0 ! 0 \<and>
   camera_to_worlds (cameras rounding_outputs) ! 0 \<noteq>
     map (\<lambda>row. row[3 := row ! 3 * scene_scale rounding_config])
       (take 3 (transform_matrix (frames rounding_manifest ! 0))) \<and>
   float32 rounding_world (6 / 10) = 10066330 / 2 ^ 24 \<and>
   \<bar>6 / 10 - 10066330 / 2 ^ 24 :: real\<bar> < 1 / 2 ^ 25 \<and>
   float32 rounding_world (8 / 10) = 13421773 / 2 ^ 24 \<and>
   \<bar>8 / 10 - 13421773 / 2 ^ 24 :: real\<bar> < 1 / 2 ^ 25"
  by (simp add: rounding_run)
     (simp add: rounding_manifest_def rounding_outputs_def rounding_config_def
       rounding_world_def float32_near_def)

text \<open>
  C4: the retained poses are stacked into one array and converted to float32; each
  camera-to-world transform of the output consists of the first three rows of the
  corresponding input pose, every entry rounded to float32, with the entry of column 3
  then multiplied by \<open>scene_scale\<close>. Every other entry, the rotation block among them,
  is the float32 rounding of the input entry, hence the input entry itself whenever
  that is a float32 number; the fourth row is dropped.
\<close>

theorem camera_to_worlds_scaled_translation:
  assumes "generate_dataparser_outputs W C meta split = (printed, Inr out)"
  shows
    "length (camera_to_worlds (cameras out)) =
       length (map transform_matrix (retained W C (frames meta))) \<and>
     (\<forall>i < length (map transform_matrix (retained W C (frames meta))).
        camera_to_worlds (cameras out) ! i =
          map (\<lambda>row. (map (float32 W) row)
                        [3 := float32 W (float32 W (row ! 3) * float32 W (scene_scale C))])
            (take 3 (map transform_matrix (retained W C (frames meta)) ! i)) \<and>
        length (camera_to_worlds (cameras out) ! i) =
          min 3 (length (map transform_matrix (retained W C (frames meta)) ! i)) \<and>
        (\<forall>r < length (camera_to_worlds (cameras out) ! i).
           3 < length (map transform_matrix (retained W C (frames meta)) ! i ! r) \<and>
           length (camera_to_worlds (cameras out) ! i ! r) =
             length (map transform_matrix (retained W C (frames meta)) ! i ! r) \<and>
           camera_to_worlds (cameras out) ! i ! r ! 3 =
             float32 W (float32 W (map transform_matrix (retained W C (frames meta)) ! i ! r ! 3)
                        * float32 W (scene_scale C)) \<and>
           (\<forall>c < length (map transform_matrix (retained W C (frames meta)) ! i ! r). c \<noteq> 3 \<longrightarrow>
              camera_to_worlds (cameras out) ! i ! r ! c =
                float32 W (map transform_matrix (retained W C (frames meta)) ! i ! r ! c) \<and>
              (float32 W (map transform_matrix (retained W C (frames meta)) ! i ! r ! c) =
                 map transform_matrix (retained W C (frames meta)) ! i ! r ! c \<longrightarrow>
               camera_to_worlds (cameras out) ! i ! r ! c =
                 map transform_matrix (retained W C (frames meta)) ! i ! r ! c))))"
proof -
  define ps where "ps = map transform_matrix (retained W C (frames meta))"
  define c2w where "c2w = camera_to_worlds (cameras out)"
  define f32 where "f32 = float32 W"
  define s where "s = scene_scale C"
  from assms obtain st where l: "frame_loop W C (frames meta) init_state = Inr st"
    and a: "assemble W C meta st = Inr out"
    by (rule generate_Inr)
  have pst: "st_poses st = ps" using frame_loop_init(2) [OF l] by (simp add: ps_def)
  have rect: "\<forall>p\<in>set ps. \<forall>row\<in>set p. length row = length (hd p)"
    using frame_loop_poses_rect [OF l] pst by (simp add: init_state_def)
  have c: "camera_to_world_of f32 s ps = Inr c2w"
    using assemble_Inr(4) [OF a] pst by (simp add: f32_def s_def c2w_def)
  note k = camera_to_world_of_Inr [OF c]
  have len: "length c2w = length ps" using k(1) by simp
  have wide: "3 < length (ps ! i ! r)" if "i < length ps" "r < length (ps ! i)" for i r
  proof -
    from that have "ps ! i \<in> set ps" and "ps ! i ! r \<in> set (ps ! i)" by simp_all
    with rect k(2) show ?thesis by metis
  qed
  have each: "c2w ! i = map (\<lambda>row. (map f32 row)[3 := f32 (f32 (row ! 3) * f32 s)]) (take 3 (ps ! i))"
    if i: "i < length ps" for i
  proof -
    have "c2w ! i = map (scale_row f32 s) (map (map f32) (take 3 (ps ! i)))"
      using i k(1) by (simp add: take_map)
    also have "\<dots> = map (\<lambda>row. scale_row f32 s (map f32 row)) (take 3 (ps ! i))"
      by (simp add: comp_def)
    also have "\<dots> = map (\<lambda>row. (map f32 row)[3 := f32 (f32 (row ! 3) * f32 s)]) (take 3 (ps ! i))"
    proof (rule map_cong [OF refl])
      fix row assume "row \<in> set (take 3 (ps ! i))"
      then have "row \<in> set (ps ! i)" by (rule in_set_takeD)
      then obtain r where "r < length (ps ! i)" "row = ps ! i ! r"
        by (auto simp: in_set_conv_nth)
      with wide [OF i] have "3 < length row" by simp
      then show "scale_row f32 s (map f32 row) = (map f32 row)[3 := f32 (f32 (row ! 3) * f32 s)]"
        by (simp add: scale_row_def)
    qed
    finally show ?thesis .
  qed
  have "\<forall>i < length ps.
         c2w ! i = map (\<lambda>row. (map f32 row)[3 := f32 (f32 (row ! 3) * f32 s)]) (take 3 (ps ! i)) \<and>
         length (c2w ! i) = min 3 (length (ps ! i)) \<and>
         (\<forall>r < length (c2w ! i).
            3 < length (ps ! i ! r) \<and>
            length (c2w ! i ! r) = length (ps ! i ! r) \<and>
            c2w ! i ! r ! 3 = f32 (f32 (ps ! i ! r ! 3) * f32 s) \<and>
            (\<forall>c < length (ps ! i ! r). c \<noteq> 3 \<longrightarrow>
               c2w ! i ! r ! c = f32 (ps ! i ! r ! c) \<and>
               (f32 (ps ! i ! r ! c) = ps ! i ! r ! c \<longrightarrow> c2w ! i ! r ! c = ps ! i ! r ! c)))"
  proof (intro allI impI conjI)
    fix i assume i: "i < length ps"
    show e: "c2w ! i = map (\<lambda>row. (map f32 row)[3 := f32 (f32 (row ! 3) * f32 s)]) (take 3 (ps ! i))"
      by (rule each [OF i])
    show m: "length (c2w ! i) = min 3 (length (ps ! i))"
      using e by simp
    fix r assume r: "r < length (c2w ! i)"
    with m have r3: "r < 3" and rl: "r < length (ps ! i)" by simp_all
    show w: "3 < length (ps ! i ! r)" by (rule wide [OF i rl])
    have row: "c2w ! i ! r = (map f32 (ps ! i ! r))[3 := f32 (f32 (ps ! i ! r ! 3) * f32 s)]"
      using e r3 rl by simp
    show "length (c2w ! i ! r) = length (ps ! i ! r)" using row by simp
    show "c2w ! i ! r ! 3 = f32 (f32 (ps ! i ! r ! 3) * f32 s)" using row w by simp
    fix c assume c: "c < length (ps ! i ! r)" "c \<noteq> 3"
    then show v: "c2w ! i ! r ! c = f32 (ps ! i ! r ! c)" using row by simp
    assume "f32 (ps ! i ! r ! c) = ps ! i ! r ! c"
    with v show "c2w ! i ! r ! c = ps ! i ! r ! c" by simp
  qed
  with len show ?thesis
    unfolding ps_def c2w_def f32_def s_def by blast
qed

theorem camera_to_worlds_scaled_translation_witness:
  "camera_to_worlds (cameras demo_outputs) ! 0 =
     map (\<lambda>row. row[3 := row ! 3 * (33 / 100)])
       (take 3 [[1, 0, 0, 3], [0, 1, 0, 6], [0, 0, 1, 9], [0, 0, 0, 1]]) \<and>
   camera_to_worlds (cameras demo_outputs) ! 1 =
     [[0, 1, 0, - 3 * (33 / 100)], [1, 0, 0, 0 * (33 / 100)], [0, 0, 1, 100 * (33 / 100)]]"
proof -
  have r: "retained demo_world demo_config (frames demo_manifest) = frames demo_manifest"
    by (simp add: retained_def path_truthy_def)
  from camera_to_worlds_scaled_translation [OF demo_run] have
    q: "\<forall>i < length (map transform_matrix (frames demo_manifest)).
         camera_to_worlds (cameras demo_outputs) ! i =
           map (\<lambda>row. (map (float32 demo_world) row)
                  [3 := float32 demo_world (float32 demo_world (row ! 3) *
                          float32 demo_world (scene_scale demo_config))])
             (take 3 (map transform_matrix (frames demo_manifest) ! i))"
    unfolding r by blast
  from q [rule_format, of 0] q [rule_format, of 1] show ?thesis
    by (simp add: demo_world_def demo_config_def demo_manifest_def)
qed

subsection \<open>The path test\<close>

lemma never_skips:
  "frame_loop W C frs init_state = Inr st \<Longrightarrow>
     num_skipped_image_filenames st = 0 \<and> length (st_image_filenames st) = length frs"
  using frame_loop_init(1,4) [of W C frs st] by (simp add: retained_def path_truthy_def)

text \<open>
  C2: a frame whose \<open>file_path\<close> is the empty string is to be skipped, so that a manifest
  of such frames fails with the zero-frames assertion and a skip count equal to the
  number of frames. The test \<open>not fname\<close> is made on a path object and never holds:
  with no file on disk the frame is retained and the parse ends in the I/O error of
  \<open>np.load\<close>, before any line is printed; with every file present the frame is kept,
  the printed skip count is 0 and outputs are returned.
\<close>

theorem empty_file_path_is_retained:
  "generate_dataparser_outputs no_files_world demo_config empty_path_manifest ''train'' =
     ([], Inl IOError) \<and>
   fst (generate_dataparser_outputs all_files_world demo_config empty_path_manifest ''train'') =
     [Skipping 0 ''train''] \<and>
   (\<exists>out. snd (generate_dataparser_outputs all_files_world demo_config empty_path_manifest ''train'') =
            Inr out \<and> image_filenames out = [''data''])"
proof -
  have 1: "frame_loop no_files_world demo_config (frames empty_path_manifest) init_state = Inl IOError"
    by (simp add: no_files_world_def demo_config_def empty_path_manifest_def init_state_def
        frame_step_def path_truthy_def np_array_def)
  have 2: "frame_loop all_files_world demo_config (frames empty_path_manifest) init_state =
     Inr \<lparr>st_image_filenames = [''data''],
          st_poses = [[[1, 0, 0, 3], [0, 1, 0, 6], [0, 0, 1, 9], [0, 0, 0, 1]]],
          st_depths = [Arr [Arr [Scalar 1]]],
          num_skipped_image_filenames = 0, image_size = Some (1, 1)\<rparr>"
    by (simp add: all_files_world_def demo_config_def empty_path_manifest_def init_state_def
        frame_step_def path_truthy_def np_array_def)
  show ?thesis
    unfolding generate_dataparser_outputs_def 1 2
    by (simp add: assemble_def bind_err_def camera_to_world_of_def stack_float32_def shape_def
      scale_translation_def scale_row_def top_rows_def getitem_def get_focal_lengths_def
      py_int_def all_files_world_def demo_config_def demo_manifest_def empty_path_manifest_def)
qed

end
